theory Spec2Isabelle
  imports Complex_Main "HOL-Library.Word" "HOL-Library.Sublist"
begin

section \<open>BLE scan lifecycle and advertisement classification (blecsan.cpp)\<close>

text \<open>
  A shallow embedding of the four functions of \<^verbatim>\<open>src/src/blecsan.cpp\<close>:
  \<^verbatim>\<open>gap_callback_handler\<close>, \<^verbatim>\<open>register_ble_callback\<close>, \<^verbatim>\<open>start_BLEscan\<close> and
  \<^verbatim>\<open>stop_BLEscan\<close>. Every call of the radio stack, of the logger, of \<^verbatim>\<open>mac_add\<close> and of
  \<^verbatim>\<open>do_reset\<close> is recorded, in program order, in a list of effects; the values the
  environment hands back (\<^verbatim>\<open>btStart()\<close>, \<^verbatim>\<open>btStop()\<close>, the status codes of the GAP
  primitives) are inputs of the model. The file is compiled only when \<^verbatim>\<open>LIBPAX\<close> is off;
  that is the build modelled here.
\<close>

subsection \<open>Compile-time and run-time configuration\<close>

type_synonym byte = "8 word"

text \<open>
  The preprocessor switches the file tests, and the two macros it uses whose definitions
  live in a configuration header outside the sources at hand; the macros are therefore
  parameters. \<open>BLESCANTIME\<close> is the argument of every \<^verbatim>\<open>esp_ble_gap_start_scanning\<close>
  call, \<open>BLESCANWINDOW\<close> is divided by 0.625 to obtain the scan window.
\<close>

record build_flags =
  MACFILTER :: bool
  COUNT_ENS :: bool
  VERBOSE :: bool
  BLECOUNTER :: bool
  BLESCANTIME :: nat
  BLESCANWINDOW :: nat

text \<open>The two fields of the global \<^verbatim>\<open>cfg\<close> the file reads.\<close>

record configData_t =
  enscount :: bool
  blescantime :: nat

text \<open>What the environment returns to the calls whose result the code could inspect.\<close>

record environment =
  btStart_ret :: bool
  btStop_ret :: bool
  gap_start_scanning_ret :: int
  gap_stop_scanning_ret :: int
  gap_register_callback_ret :: int
  gap_set_scan_params_ret :: int

definition ESP_OK :: int where
  "ESP_OK = 0"

subsection \<open>Events delivered by the radio stack\<close>

datatype esp_gap_ble_cb_event_t =
    ESP_GAP_BLE_SCAN_PARAM_SET_COMPLETE_EVT
  | ESP_GAP_BLE_SCAN_RESULT_EVT
  | ESP_GAP_BLE_OTHER_EVT nat

datatype esp_gap_search_evt_t =
    ESP_GAP_SEARCH_INQ_RES_EVT
  | ESP_GAP_SEARCH_INQ_CMPL_EVT
  | ESP_GAP_SEARCH_OTHER_EVT nat

datatype esp_ble_addr_type_t =
    BLE_ADDR_TYPE_PUBLIC
  | BLE_ADDR_TYPE_RANDOM
  | BLE_ADDR_TYPE_RPA_PUBLIC
  | BLE_ADDR_TYPE_RPA_RANDOM

text \<open>
  The fields of \<^verbatim>\<open>param->scan_rst\<close> the handler touches. \<open>ble_adv\<close> holds the bytes that
  can be read starting at \<^verbatim>\<open>p->scan_rst.ble_adv\<close>: the empty list stands for a parameter
  record without a readable payload.
\<close>

record scan_rst =
  search_evt :: esp_gap_search_evt_t
  bda :: "byte list"
  ble_addr_type :: esp_ble_addr_type_t
  rssi :: int
  ble_adv :: "byte list"

subsection \<open>Effects and outcomes\<close>

datatype sniff_type = MAC_SNIFF_BLE | MAC_SNIFF_BLE_ENS

datatype esp_log_level = ESP_LOG_ERROR | ESP_LOG_INFO | ESP_LOG_DEBUG | ESP_LOG_VERBOSE

datatype log_arg = Arg_int int | Arg_str string

datatype callback_ref = Null_callback | Gap_callback_handler

datatype esp_ble_scan_type_t = BLE_SCAN_TYPE_PASSIVE | BLE_SCAN_TYPE_ACTIVE

datatype esp_ble_scan_filter_t =
    BLE_SCAN_FILTER_ALLOW_ALL
  | BLE_SCAN_FILTER_ALLOW_ONLY_WLST
  | BLE_SCAN_FILTER_ALLOW_UND_RPA_DIR
  | BLE_SCAN_FILTER_ALLOW_WLIST_PRA_DIR

datatype esp_ble_scan_duplicate_t = BLE_SCAN_DUPLICATE_DISABLE | BLE_SCAN_DUPLICATE_ENABLE

datatype esp_coex_prefer_t = ESP_COEX_PREFER_WIFI | ESP_COEX_PREFER_BT

record esp_ble_scan_params_t =
  scan_type :: esp_ble_scan_type_t
  own_addr_type :: esp_ble_addr_type_t
  scan_filter_policy :: esp_ble_scan_filter_t
  scan_interval :: "16 word"
  scan_window :: "16 word"
  scan_duplicate :: esp_ble_scan_duplicate_t

datatype effect =
    Esp_log esp_log_level string "log_arg list"
  | Esp_ble_gap_start_scanning nat
  | Esp_ble_gap_stop_scanning
  | Esp_ble_gap_register_callback callback_ref
  | Esp_ble_gap_set_scan_params esp_ble_scan_params_t
  | Mac_add "byte list" int sniff_type
  | BtStart
  | BtStop
  | Esp_coex_preference_set esp_coex_prefer_t
  | Esp_bluedroid_init
  | Esp_bluedroid_enable
  | Esp_bluedroid_disable
  | Esp_bluedroid_deinit
  | Do_reset bool

text \<open>
  The behaviours C++ leaves undefined and the code can reach: dereferencing a payload that
  is not there, \<^verbatim>\<open>strstr\<close> on bytes without a terminating zero, and converting a
  floating-point value that does not fit into \<^verbatim>\<open>uint16_t\<close>.
\<close>

datatype fault = Unreadable_payload | Unterminated_string | Cast_out_of_range

datatype 'a outcome = Returned 'a | Device_reset | Undefined fault

type_synonym 'a run = "effect list \<times> 'a outcome"

definition return_run :: "'a \<Rightarrow> 'a run" where
  "return_run a = ([], Returned a)"

definition bind_run :: "'a run \<Rightarrow> ('a \<Rightarrow> 'b run) \<Rightarrow> 'b run" where
  "bind_run m f =
     (case snd m of
        Returned a \<Rightarrow> (fst m @ fst (f a), snd (f a))
      | Device_reset \<Rightarrow> (fst m, Device_reset)
      | Undefined x \<Rightarrow> (fst m, Undefined x))"

text \<open>Statement sequencing: the value of the first statement is discarded.\<close>

definition seq_run :: "'a run \<Rightarrow> 'b run \<Rightarrow> 'b run" where
  "seq_run m n = bind_run m (\<lambda>_. n)"

definition emit :: "effect \<Rightarrow> unit run" where
  "emit e = ([e], Returned ())"

subsection \<open>The external calls\<close>

definition esp_log :: "esp_log_level \<Rightarrow> string \<Rightarrow> log_arg list \<Rightarrow> unit run" where
  "esp_log lvl msg args = emit (Esp_log lvl msg args)"

definition esp_ble_gap_start_scanning :: "environment \<Rightarrow> nat \<Rightarrow> int run" where
  "esp_ble_gap_start_scanning env duration =
     ([Esp_ble_gap_start_scanning duration], Returned (gap_start_scanning_ret env))"

definition esp_ble_gap_stop_scanning :: "environment \<Rightarrow> int run" where
  "esp_ble_gap_stop_scanning env =
     ([Esp_ble_gap_stop_scanning], Returned (gap_stop_scanning_ret env))"

definition esp_ble_gap_register_callback :: "environment \<Rightarrow> callback_ref \<Rightarrow> int run" where
  "esp_ble_gap_register_callback env cb =
     ([Esp_ble_gap_register_callback cb], Returned (gap_register_callback_ret env))"

definition esp_ble_gap_set_scan_params :: "environment \<Rightarrow> esp_ble_scan_params_t \<Rightarrow> int run" where
  "esp_ble_gap_set_scan_params env ps =
     ([Esp_ble_gap_set_scan_params ps], Returned (gap_set_scan_params_ret env))"

definition btStart :: "environment \<Rightarrow> bool run" where
  "btStart env = ([BtStart], Returned (btStart_ret env))"

definition btStop :: "environment \<Rightarrow> bool run" where
  "btStop env = ([BtStop], Returned (btStop_ret env))"

definition mac_add :: "byte list \<Rightarrow> int \<Rightarrow> sniff_type \<Rightarrow> unit run" where
  "mac_add addr r k = emit (Mac_add addr r k)"

text \<open>
  Modelled from the spec: \<^verbatim>\<open>do_reset\<close> is defined outside the sources at hand. The spec
  calls it the fatal device restart, so the call is recorded and control does not come back
  to the caller.
\<close>

definition do_reset :: "bool \<Rightarrow> 'a run" where
  "do_reset warm = ([Do_reset warm], Device_reset)"

subsection \<open>The C library's string search\<close>

text \<open>
  \<^verbatim>\<open>strstr\<close> works on C strings: the characters in front of the first zero byte. The
  bytes of a buffer that holds no zero byte are not a C string, and the search would run
  past its end.
\<close>

fun c_string :: "byte list \<Rightarrow> byte list option" where
  "c_string [] = None"
| "c_string (b # bs) = (if b = 0 then Some [] else map_option ((#) b) (c_string bs))"

fun starts_with :: "byte list \<Rightarrow> byte list \<Rightarrow> bool" where
  "starts_with h [] = True"
| "starts_with [] (n # ns) = False"
| "starts_with (c # cs) (n # ns) = (c = n \<and> starts_with cs ns)"

text \<open>The offset of the first occurrence of the needle, \<open>None\<close> for the null pointer.\<close>

fun find_first :: "byte list \<Rightarrow> byte list \<Rightarrow> nat option" where
  "find_first [] n = (if n = [] then Some 0 else None)"
| "find_first (c # cs) n =
     (if starts_with (c # cs) n then Some 0 else map_option Suc (find_first cs n))"

definition strstr :: "byte list \<Rightarrow> byte list \<Rightarrow> (nat option) outcome" where
  "strstr haystack needle =
     (case c_string haystack of
        None \<Rightarrow> Undefined Unterminated_string
      | Some h \<Rightarrow>
          (case c_string needle of
             None \<Rightarrow> Undefined Unterminated_string
           | Some n \<Rightarrow> Returned (find_first h n)))"

subsection \<open>The verbose build's name tables\<close>

definition bt_addr_t_to_string :: "esp_ble_addr_type_t \<Rightarrow> string" where
  "bt_addr_t_to_string t =
     (case t of
        BLE_ADDR_TYPE_PUBLIC \<Rightarrow> ''BLE_ADDR_TYPE_PUBLIC''
      | BLE_ADDR_TYPE_RANDOM \<Rightarrow> ''BLE_ADDR_TYPE_RANDOM''
      | BLE_ADDR_TYPE_RPA_PUBLIC \<Rightarrow> ''BLE_ADDR_TYPE_RPA_PUBLIC''
      | BLE_ADDR_TYPE_RPA_RANDOM \<Rightarrow> ''BLE_ADDR_TYPE_RPA_RANDOM'')"

definition gap_type_names :: "(nat \<times> string) list" where
  "gap_type_names =
     [(0x01, ''Flags''),
      (0x02, ''Incomplete List of 16-bit Service Class UUIDs''),
      (0x03, ''Complete List of 16-bit Service Class UUIDs''),
      (0x04, ''Incomplete List of 32-bit Service Class UUIDs''),
      (0x05, ''Complete List of 32-bit Service Class UUIDs''),
      (0x06, ''Incomplete List of 128-bit Service Class UUIDs''),
      (0x07, ''Complete List of 128-bit Service Class UUIDs''),
      (0x08, ''Shortened Local Name''),
      (0x09, ''Complete Local Name''),
      (0x0A, ''Tx Power Level''),
      (0x0D, ''Class of Device''),
      (0x0E, ''Simple Pairing Hash C/C-192''),
      (0x0F, ''Simple Pairing Randomizer R/R-192''),
      (0x10, ''Device ID/Security Manager TK Value''),
      (0x11, ''Security Manager Out of Band Flags''),
      (0x12, ''Slave Connection Interval Range''),
      (0x14, ''List of 16-bit Service Solicitation UUIDs''),
      (0x1F, ''List of 32-bit Service Solicitation UUIDs''),
      (0x15, ''List of 128-bit Service Solicitation UUIDs''),
      (0x16, ''Service Data - 16-bit UUID''),
      (0x20, ''Service Data - 32-bit UUID''),
      (0x21, ''Service Data - 128-bit UUID''),
      (0x22, ''LE Secure Connections Confirmation Value''),
      (0x23, ''LE Secure Connections Random Value''),
      (0x24, ''URI''),
      (0x25, ''Indoor Positioning''),
      (0x26, ''Transport Discovery Data''),
      (0x17, ''Public Target Address''),
      (0x18, ''Random Target Address''),
      (0x19, ''Appearance''),
      (0x1A, ''Advertising Interval''),
      (0x1B, ''LE Bluetooth Device Address''),
      (0x1C, ''LE Role''),
      (0x1D, ''Simple Pairing Hash C-256''),
      (0x1E, ''Simple Pairing Randomizer R-256''),
      (0x3D, ''3D Information Data''),
      (0xFF, ''Manufacturer Specific Data'')]"

definition btsig_gap_type :: "nat \<Rightarrow> string" where
  "btsig_gap_type gap_type =
     (case map_of gap_type_names gap_type of
        Some name \<Rightarrow> name
      | None \<Rightarrow> ''Unknown type'')"

subsection \<open>\<^verbatim>\<open>gap_callback_handler\<close>\<close>

text \<open>The array \<^verbatim>\<open>"\x16\x6f\xfd"\<close>, with the zero byte the literal ends in.\<close>

definition ensMagicBytes :: "byte list" where
  "ensMagicBytes = [0x16, 0x6f, 0xfd, 0x00]"

text \<open>
  Lines 124 to 127: in a verbose build the first payload byte is read and logged ahead of
  the \<^verbatim>\<open>switch\<close>.
\<close>

definition log_payload_type :: "build_flags \<Rightarrow> scan_rst \<Rightarrow> unit run" where
  "log_payload_type fl p =
     (if VERBOSE fl then
        (case ble_adv p of
           [] \<Rightarrow> ([], Undefined Unreadable_payload)
         | b # _ \<Rightarrow>
             esp_log ESP_LOG_VERBOSE ''BT payload rcvd -> type: 0x%.2x -> %s''
               [Arg_int (uint b), Arg_str (btsig_gap_type (unat b))])
      else return_run ())"

text \<open>Lines 147 to 153.\<close>

definition log_device :: "build_flags \<Rightarrow> scan_rst \<Rightarrow> unit run" where
  "log_device fl p =
     (if VERBOSE fl then
        seq_run
          (esp_log ESP_LOG_VERBOSE ''Device address (bda): %02x:%02x:%02x:%02x:%02x:%02x''
             (map (\<lambda>b. Arg_int (uint b)) (take 6 (bda p))))
          (seq_run
             (esp_log ESP_LOG_VERBOSE ''Addr_type           : %s''
                [Arg_str (bt_addr_t_to_string (ble_addr_type p))])
             (esp_log ESP_LOG_VERBOSE ''RSSI                : %d'' [Arg_int (rssi p)]))
      else return_run ())"

text \<open>Lines 167 to 178: the device is handed to the MAC processing queue.\<close>

definition count_device :: "build_flags \<Rightarrow> configData_t \<Rightarrow> scan_rst \<Rightarrow> unit run" where
  "count_device fl cfg p =
     (if COUNT_ENS fl then
        (if enscount cfg then
           bind_run ([], strstr (ble_adv p) ensMagicBytes)
             (\<lambda>found.
                if found \<noteq> None then mac_add (bda p) (rssi p) MAC_SNIFF_BLE_ENS
                else mac_add (bda p) (rssi p) MAC_SNIFF_BLE)
         else return_run ())
      else mac_add (bda p) (rssi p) MAC_SNIFF_BLE)"

definition gap_callback_handler ::
  "build_flags \<Rightarrow> configData_t \<Rightarrow> environment \<Rightarrow> esp_gap_ble_cb_event_t \<Rightarrow> scan_rst \<Rightarrow> unit run"
where
  "gap_callback_handler fl cfg env event p =
     seq_run (log_payload_type fl p)
       (case event of
          ESP_GAP_BLE_SCAN_PARAM_SET_COMPLETE_EVT \<Rightarrow>
            seq_run (esp_ble_gap_start_scanning env (BLESCANTIME fl)) (return_run ())
        | ESP_GAP_BLE_SCAN_RESULT_EVT \<Rightarrow>
            (if search_evt p = ESP_GAP_SEARCH_INQ_CMPL_EVT then
               seq_run (esp_ble_gap_start_scanning env (BLESCANTIME fl)) (return_run ())
             else if search_evt p = ESP_GAP_SEARCH_INQ_RES_EVT then
               seq_run (log_device fl p)
                 (if MACFILTER fl \<and>
                     (ble_addr_type p = BLE_ADDR_TYPE_RANDOM \<or>
                      ble_addr_type p = BLE_ADDR_TYPE_RPA_RANDOM)
                  then
                    (if VERBOSE fl then esp_log ESP_LOG_VERBOSE ''BT device filtered'' []
                     else return_run ())
                  else count_device fl cfg p)
             else return_run ())
        | ESP_GAP_BLE_OTHER_EVT _ \<Rightarrow> return_run ())"

subsection \<open>\<^verbatim>\<open>register_ble_callback\<close>\<close>

text \<open>
  The conversion \<^verbatim>\<open>(uint16_t)x\<close> of a \<^verbatim>\<open>double\<close>: the fraction is dropped, and the
  result is defined only when the truncated value fits into 16 bits.
\<close>

definition to_uint16 :: "real \<Rightarrow> (16 word) outcome" where
  "to_uint16 x =
     (let t = (if 0 \<le> x then \<lfloor>x\<rfloor> else \<lceil>x\<rceil>)
      in if 0 \<le> t \<and> t < 65536 then Returned (word_of_int t)
         else Undefined Cast_out_of_range)"

text \<open>
  The initialiser of the function-local \<^verbatim>\<open>static ble_scan_params\<close> (lines 236 to 258).
  The quotients are taken over the reals: 0.625 is a binary fraction, and the fractional
  part of an integer divided by it is a multiple of one fifth, so rounding the quotient
  to a \<^verbatim>\<open>double\<close> never moves it across an integer and the truncation sees the exact
  integer part.
\<close>

definition ble_scan_params_init ::
  "build_flags \<Rightarrow> configData_t \<Rightarrow> esp_ble_scan_params_t run"
where
  "ble_scan_params_init fl cfg =
     bind_run ([], to_uint16 (real (blescantime cfg * 10) / 0.625))
       (\<lambda>interval.
          bind_run ([], to_uint16 (real (BLESCANWINDOW fl) / 0.625))
            (\<lambda>window.
               return_run
                 \<lparr>scan_type = BLE_SCAN_TYPE_PASSIVE,
                  own_addr_type = BLE_ADDR_TYPE_RANDOM,
                  scan_filter_policy = BLE_SCAN_FILTER_ALLOW_ALL,
                  scan_interval = interval,
                  scan_window = window,
                  scan_duplicate = BLE_SCAN_DUPLICATE_ENABLE\<rparr>))"

text \<open>
  The only state the file owns is that \<^verbatim>\<open>static\<close>: \<open>None\<close> until the register branch
  has run once, and never initialised again afterwards.
\<close>

type_synonym statics = "esp_ble_scan_params_t option"

definition register_ble_callback ::
  "build_flags \<Rightarrow> configData_t \<Rightarrow> environment \<Rightarrow> bool \<Rightarrow> statics \<Rightarrow> (int \<times> statics) run"
where
  "register_ble_callback fl cfg env unregister st =
     (if unregister then
        seq_run (esp_log ESP_LOG_INFO ''Unregister GAP callback...'' [])
          (seq_run (esp_ble_gap_stop_scanning env)
             (seq_run (esp_ble_gap_register_callback env Null_callback)
                (return_run (ESP_OK, st))))
      else
        seq_run (esp_log ESP_LOG_INFO ''Register GAP callback...'' [])
          (seq_run (esp_ble_gap_register_callback env Gap_callback_handler)
             (bind_run
                (case st of
                   Some ps \<Rightarrow> return_run ps
                 | None \<Rightarrow> ble_scan_params_init fl cfg)
                (\<lambda>ps.
                   seq_run (esp_log ESP_LOG_INFO ''Set GAP scan parameters'' [])
                     (seq_run (esp_ble_gap_set_scan_params env ps)
                        (return_run (ESP_OK, Some ps)))))))"

subsection \<open>\<^verbatim>\<open>start_BLEscan\<close> and \<^verbatim>\<open>stop_BLEscan\<close>\<close>

definition start_BLEscan ::
  "build_flags \<Rightarrow> configData_t \<Rightarrow> environment \<Rightarrow> statics \<Rightarrow> statics run"
where
  "start_BLEscan fl cfg env st =
     (if BLECOUNTER fl then
        seq_run (esp_log ESP_LOG_INFO ''Initializing bluetooth scanner ...'' [])
          (bind_run (btStart env)
             (\<lambda>started.
                if started then
                  seq_run (emit (Esp_coex_preference_set ESP_COEX_PREFER_BT))
                    (seq_run (emit Esp_bluedroid_init)
                       (seq_run (emit Esp_bluedroid_enable)
                          (bind_run (register_ble_callback fl cfg env False st)
                             (\<lambda>r.
                                seq_run (esp_log ESP_LOG_INFO ''Bluetooth scanner started'' [])
                                  (return_run (snd r))))))
                else
                  seq_run
                    (esp_log ESP_LOG_ERROR
                       ''Bluetooth controller start failed. Resetting device'' [])
                    (do_reset True)))
      else return_run st)"

definition stop_BLEscan ::
  "build_flags \<Rightarrow> configData_t \<Rightarrow> environment \<Rightarrow> statics \<Rightarrow> statics run"
where
  "stop_BLEscan fl cfg env st =
     (if BLECOUNTER fl then
        seq_run (esp_log ESP_LOG_INFO ''Shutting down bluetooth scanner ...'' [])
          (bind_run (register_ble_callback fl cfg env True st)
             (\<lambda>r.
                seq_run (esp_log ESP_LOG_DEBUG ''bluedroid disable...'' [])
                  (seq_run (emit Esp_bluedroid_disable)
                     (seq_run (esp_log ESP_LOG_DEBUG ''bluedroid deinit...'' [])
                        (seq_run (emit Esp_bluedroid_deinit)
                           (bind_run (btStop env)
                              (\<lambda>stopped.
                                 seq_run
                                   (if \<not> stopped then
                                      seq_run
                                        (esp_log ESP_LOG_ERROR
                                           ''Bluetooth controller stop failed. Resetting device'' [])
                                        (do_reset True)
                                    else return_run ())
                                   (seq_run (emit (Esp_coex_preference_set ESP_COEX_PREFER_WIFI))
                                      (seq_run (esp_log ESP_LOG_INFO ''Bluetooth scanner stopped'' [])
                                         (return_run (snd r)))))))))))
      else return_run st)"

subsection \<open>Event delivery and what an observer sees of a trace\<close>

text \<open>
  The radio stack calls the registered handler once per event, one event after the other.
\<close>

fun deliver ::
  "build_flags \<Rightarrow> configData_t \<Rightarrow> environment \<Rightarrow>
   (esp_gap_ble_cb_event_t \<times> scan_rst) list \<Rightarrow> unit run"
where
  "deliver fl cfg env [] = return_run ()"
| "deliver fl cfg env (e # es) =
     seq_run (gap_callback_handler fl cfg env (fst e) (snd e)) (deliver fl cfg env es)"

text \<open>The commands sent to the radio stack's GAP layer.\<close>

fun is_radio_cmd :: "effect \<Rightarrow> bool" where
  "is_radio_cmd (Esp_ble_gap_start_scanning _) = True"
| "is_radio_cmd Esp_ble_gap_stop_scanning = True"
| "is_radio_cmd (Esp_ble_gap_register_callback _) = True"
| "is_radio_cmd (Esp_ble_gap_set_scan_params _) = True"
| "is_radio_cmd _ = False"

definition radio_cmds :: "effect list \<Rightarrow> effect list" where
  "radio_cmds tr = filter is_radio_cmd tr"

text \<open>The sightings handed to the MAC processing queue: address, RSSI and kind.\<close>

fun sighting_of :: "effect \<Rightarrow> (byte list \<times> int \<times> sniff_type) list" where
  "sighting_of (Mac_add a r k) = [(a, r, k)]"
| "sighting_of _ = []"

definition sightings :: "effect list \<Rightarrow> (byte list \<times> int \<times> sniff_type) list" where
  "sightings tr = concat (map sighting_of tr)"

fun is_reset :: "effect \<Rightarrow> bool" where
  "is_reset (Do_reset _) = True"
| "is_reset _ = False"

definition resets :: "effect list \<Rightarrow> effect list" where
  "resets tr = filter is_reset tr"

text \<open>
  The code keeps no session variable. Modelled from the spec: the session state of the
  spec's lifecycle (section 4.2), read off the lifecycle commands issued so far:
  parameters submitted, scanning begun, scanning stopped, controller stopped.
\<close>

datatype ScanSessionState = Idle | ParamsPending | Scanning | Stopping

fun session_step :: "ScanSessionState \<Rightarrow> effect \<Rightarrow> ScanSessionState" where
  "session_step s (Esp_ble_gap_set_scan_params _) = ParamsPending"
| "session_step s (Esp_ble_gap_start_scanning _) = Scanning"
| "session_step s Esp_ble_gap_stop_scanning = Stopping"
| "session_step s BtStop = Idle"
| "session_step s _ = s"

definition session :: "effect list \<Rightarrow> ScanSessionState" where
  "session tr = foldl session_step Idle tr"

subsection \<open>Concrete builds, environments and events\<close>

text \<open>
  A build with address filtering and signature counting compiled in, an endless scan
  (\<open>BLESCANTIME = 0\<close>) and a scan window of 80 ms; the same build with verbose logging.
\<close>

definition paxcounter_flags :: build_flags where
  "paxcounter_flags =
     \<lparr>MACFILTER = True, COUNT_ENS = True, VERBOSE = False, BLECOUNTER = True,
      BLESCANTIME = 0, BLESCANWINDOW = 80\<rparr>"

definition verbose_flags :: build_flags where
  "verbose_flags = paxcounter_flags\<lparr>VERBOSE := True\<rparr>"

definition plain_flags :: build_flags where
  "plain_flags = paxcounter_flags\<lparr>COUNT_ENS := False\<rparr>"

definition ens_on :: configData_t where
  "ens_on = \<lparr>enscount = True, blescantime = 8\<rparr>"

definition ens_off :: configData_t where
  "ens_off = \<lparr>enscount = False, blescantime = 8\<rparr>"

definition short_cycle :: configData_t where
  "short_cycle = \<lparr>enscount = True, blescantime = 1\<rparr>"

definition quiet_env :: environment where
  "quiet_env =
     \<lparr>btStart_ret = True, btStop_ret = True, gap_start_scanning_ret = 0,
      gap_stop_scanning_ret = 0, gap_register_callback_ret = 0, gap_set_scan_params_ret = 0\<rparr>"

definition failing_env :: environment where
  "failing_env =
     \<lparr>btStart_ret = False, btStop_ret = False, gap_start_scanning_ret = - 1,
      gap_stop_scanning_ret = - 1, gap_register_callback_ret = - 1,
      gap_set_scan_params_ret = - 1\<rparr>"

text \<open>An exposure-notification advertisement from a public address.\<close>

definition ens_advert :: scan_rst where
  "ens_advert =
     \<lparr>search_evt = ESP_GAP_SEARCH_INQ_RES_EVT,
      bda = [0x24, 0x6f, 0x28, 0x01, 0x02, 0x03],
      ble_addr_type = BLE_ADDR_TYPE_PUBLIC,
      rssi = - 60,
      ble_adv = [0x02, 0x01, 0x1a, 0x03, 0x03, 0x6f, 0xfd, 0x17, 0x16, 0x6f, 0xfd,
                 0xa1, 0xb2, 0xc3, 0x00]\<rparr>"

text \<open>The signature behind a zero byte.\<close>

definition zero_first_advert :: scan_rst where
  "zero_first_advert =
     \<lparr>search_evt = ESP_GAP_SEARCH_INQ_RES_EVT,
      bda = [0x24, 0x6f, 0x28, 0x01, 0x02, 0x03],
      ble_addr_type = BLE_ADDR_TYPE_PUBLIC,
      rssi = - 60,
      ble_adv = [0x02, 0x01, 0x00, 0x04, 0x16, 0x6f, 0xfd, 0x00]\<rparr>"

definition random_advert :: scan_rst where
  "random_advert = ens_advert\<lparr>ble_addr_type := BLE_ADDR_TYPE_RANDOM\<rparr>"

definition inquiry_complete :: scan_rst where
  "inquiry_complete =
     \<lparr>search_evt = ESP_GAP_SEARCH_INQ_CMPL_EVT, bda = [], ble_addr_type = BLE_ADDR_TYPE_PUBLIC,
      rssi = 0, ble_adv = [0x00]\<rparr>"

text \<open>The parameter record of a lifecycle event: no scan result, no payload.\<close>

definition no_payload :: scan_rst where
  "no_payload =
     \<lparr>search_evt = ESP_GAP_SEARCH_OTHER_EVT 0, bda = [], ble_addr_type = BLE_ADDR_TYPE_PUBLIC,
      rssi = 0, ble_adv = []\<rparr>"

section \<open>Auxiliary facts\<close>

subsection \<open>Sequencing\<close>

lemmas run_defs =
  seq_run_def bind_run_def return_run_def emit_def esp_log_def mac_add_def do_reset_def
  esp_ble_gap_start_scanning_def esp_ble_gap_stop_scanning_def
  esp_ble_gap_register_callback_def esp_ble_gap_set_scan_params_def btStart_def btStop_def

lemma seq_run_assoc: "seq_run (seq_run a b) c = seq_run a (seq_run b c)"
  by (cases "snd a"; cases "snd b") (simp_all add: seq_run_def bind_run_def)

lemma seq_run_return: "seq_run (return_run x) n = n"
  by (simp add: seq_run_def bind_run_def return_run_def)

lemma seq_run_unit: "seq_run (m :: unit run) (return_run ()) = m"
  by (cases m; cases "snd m") (auto simp add: seq_run_def bind_run_def return_run_def)

lemma seq_run_Returned:
  "snd m = Returned u \<Longrightarrow> seq_run m n = (fst m @ fst n, snd n)"
  by (simp add: seq_run_def bind_run_def)

lemma deliver_append:
  "deliver fl cfg env (xs @ ys) = seq_run (deliver fl cfg env xs) (deliver fl cfg env ys)"
  by (induction xs) (simp_all add: seq_run_return seq_run_assoc)

lemma radio_cmds_append: "radio_cmds (a @ b) = radio_cmds a @ radio_cmds b"
  by (simp add: radio_cmds_def)

lemma session_append: "session (a @ b) = foldl session_step (session a) b"
  by (simp add: session_def)

subsection \<open>The string search finds contiguous sublists\<close>

lemma starts_with_prefix: "starts_with h n \<longleftrightarrow> prefix n h"
  by (induction h n rule: starts_with.induct) auto

lemma find_first_sublist: "find_first h n \<noteq> None \<longleftrightarrow> sublist n h"
  by (induction h) (auto simp: starts_with_prefix sublist_Cons_right)

lemma find_first_None: "find_first h n = None \<longleftrightarrow> \<not> sublist n h"
  using find_first_sublist [of h n] by blast

lemma find_first_Some: "(\<exists>y. find_first h n = Some y) \<longleftrightarrow> sublist n h"
  using find_first_sublist [of h n] by auto

lemma c_string_takeWhile:
  "c_string bs = (if 0 \<in> set bs then Some (takeWhile (\<lambda>b. b \<noteq> 0) bs) else None)"
  by (induction bs) auto

lemma c_string_ensMagicBytes: "c_string ensMagicBytes = Some [0x16, 0x6f, 0xfd]"
  by (simp add: ensMagicBytes_def)

lemma strstr_ens:
  "strstr bs ensMagicBytes =
     (if 0 \<in> set bs then Returned (find_first (takeWhile (\<lambda>b. b \<noteq> 0) bs) [0x16, 0x6f, 0xfd])
      else Undefined Unterminated_string)"
  unfolding strstr_def c_string_ensMagicBytes by (simp add: c_string_takeWhile)

subsection \<open>The blocks of the handler, path by path\<close>

lemma log_payload_type_cases:
  "log_payload_type fl p =
     (if VERBOSE fl then
        (if ble_adv p = [] then ([], Undefined Unreadable_payload)
         else ([Esp_log ESP_LOG_VERBOSE ''BT payload rcvd -> type: 0x%.2x -> %s''
                 [Arg_int (uint (hd (ble_adv p))), Arg_str (btsig_gap_type (unat (hd (ble_adv p))))]],
               Returned ()))
      else ([], Returned ()))"
  by (cases "ble_adv p") (simp_all add: log_payload_type_def run_defs)

lemma log_device_cases:
  "log_device fl p =
     (if VERBOSE fl then
        ([Esp_log ESP_LOG_VERBOSE ''Device address (bda): %02x:%02x:%02x:%02x:%02x:%02x''
            (map (\<lambda>b. Arg_int (uint b)) (take 6 (bda p))),
          Esp_log ESP_LOG_VERBOSE ''Addr_type           : %s''
            [Arg_str (bt_addr_t_to_string (ble_addr_type p))],
          Esp_log ESP_LOG_VERBOSE ''RSSI                : %d'' [Arg_int (rssi p)]],
         Returned ())
      else ([], Returned ()))"
  by (simp add: log_device_def run_defs)

lemma count_device_cases:
  "count_device fl cfg p =
     (if COUNT_ENS fl then
        (if enscount cfg then
           (if 0 \<in> set (ble_adv p) then
              ([Mac_add (bda p) (rssi p)
                  (if sublist [0x16, 0x6f, 0xfd] (takeWhile (\<lambda>b. b \<noteq> 0) (ble_adv p))
                   then MAC_SNIFF_BLE_ENS else MAC_SNIFF_BLE)], Returned ())
            else ([], Undefined Unterminated_string))
         else ([], Returned ()))
      else ([Mac_add (bda p) (rssi p) MAC_SNIFF_BLE], Returned ()))"
  by (simp add: count_device_def strstr_ens run_defs find_first_None find_first_Some)

lemmas handler_cases =
  gap_callback_handler_def log_payload_type_cases log_device_cases count_device_cases
  seq_run_def bind_run_def return_run_def esp_log_def emit_def esp_ble_gap_start_scanning_def

lemma handler_param_set_complete:
  "VERBOSE fl \<longrightarrow> ble_adv p \<noteq> [] \<Longrightarrow>
   snd (gap_callback_handler fl cfg env ESP_GAP_BLE_SCAN_PARAM_SET_COMPLETE_EVT p) = Returned ()
   \<and> radio_cmds (fst (gap_callback_handler fl cfg env
        ESP_GAP_BLE_SCAN_PARAM_SET_COMPLETE_EVT p)) = [Esp_ble_gap_start_scanning (BLESCANTIME fl)]"
  by (simp add: handler_cases radio_cmds_def)

lemma handler_never_resets:
  "resets (fst (gap_callback_handler fl cfg env event p)) = []
   \<and> snd (gap_callback_handler fl cfg env event p) \<noteq> Device_reset"
  by (cases event) (simp_all add: handler_cases resets_def)

subsection \<open>The scan parameters as integers\<close>

lemma to_uint16_of_nat:
  "to_uint16 (real n) = (if n < 65536 then Returned (word_of_nat n) else Undefined Cast_out_of_range)"
  by (simp add: to_uint16_def Let_def)

lemma interval_quotient: "real (t * 10) / 0.625 = real (16 * t)"
  by simp

lemma window_floor: "\<lfloor>real w / 0.625\<rfloor> = int ((w * 8) div 5)"
proof -
  have "real w / 0.625 = real (w * 8) / real 5" by simp
  then show ?thesis by (simp only: floor_divide_of_nat_eq)
qed

lemma to_uint16_window:
  "to_uint16 (real w / 0.625) =
     (if w < 40960 then Returned (word_of_nat ((w * 8) div 5)) else Undefined Cast_out_of_range)"
proof -
  have nonneg: "0 \<le> real w / 0.625" by simp
  have "(w * 8) div 5 < 65536 \<longleftrightarrow> w < 40960" by arith
  then show ?thesis
    unfolding to_uint16_def Let_def using nonneg
    by (simp only: if_True window_floor) (simp)
qed

lemma ble_scan_params_init_cases:
  "ble_scan_params_init fl cfg =
     ([], if blescantime cfg < 4096 \<and> BLESCANWINDOW fl < 40960 then
            Returned \<lparr>scan_type = BLE_SCAN_TYPE_PASSIVE,
                      own_addr_type = BLE_ADDR_TYPE_RANDOM,
                      scan_filter_policy = BLE_SCAN_FILTER_ALLOW_ALL,
                      scan_interval = word_of_nat (16 * blescantime cfg),
                      scan_window = word_of_nat ((BLESCANWINDOW fl * 8) div 5),
                      scan_duplicate = BLE_SCAN_DUPLICATE_ENABLE\<rparr>
          else Undefined Cast_out_of_range)"
  unfolding ble_scan_params_init_def interval_quotient to_uint16_of_nat to_uint16_window
  by (simp add: bind_run_def return_run_def)

lemma unat_word16_of_nat: "n < 65536 \<Longrightarrow> unat (word_of_nat n :: 16 word) = n"
  by (simp add: unat_of_nat)

subsection \<open>The traces of registration, start and stop\<close>

lemma register_unregister:
  "register_ble_callback fl cfg env True st =
     ([Esp_log ESP_LOG_INFO ''Unregister GAP callback...'' [],
       Esp_ble_gap_stop_scanning,
       Esp_ble_gap_register_callback Null_callback], Returned (ESP_OK, st))"
  by (simp add: register_ble_callback_def run_defs)

lemma register_again:
  "register_ble_callback fl cfg env False (Some ps) =
     ([Esp_log ESP_LOG_INFO ''Register GAP callback...'' [],
       Esp_ble_gap_register_callback Gap_callback_handler,
       Esp_log ESP_LOG_INFO ''Set GAP scan parameters'' [],
       Esp_ble_gap_set_scan_params ps], Returned (ESP_OK, Some ps))"
  by (simp add: register_ble_callback_def run_defs)

lemma register_first:
  "register_ble_callback fl cfg env False None =
     (case snd (ble_scan_params_init fl cfg) of
        Returned ps \<Rightarrow>
          ([Esp_log ESP_LOG_INFO ''Register GAP callback...'' [],
            Esp_ble_gap_register_callback Gap_callback_handler,
            Esp_log ESP_LOG_INFO ''Set GAP scan parameters'' [],
            Esp_ble_gap_set_scan_params ps], Returned (ESP_OK, Some ps))
      | Device_reset \<Rightarrow>
          ([Esp_log ESP_LOG_INFO ''Register GAP callback...'' [],
            Esp_ble_gap_register_callback Gap_callback_handler], Device_reset)
      | Undefined x \<Rightarrow>
          ([Esp_log ESP_LOG_INFO ''Register GAP callback...'' [],
            Esp_ble_gap_register_callback Gap_callback_handler], Undefined x))"
  by (simp add: register_ble_callback_def run_defs ble_scan_params_init_cases)

lemma register_never_resets:
  "resets (fst (register_ble_callback fl cfg env unregister st)) = []
   \<and> snd (register_ble_callback fl cfg env unregister st) \<noteq> Device_reset"
  by (cases unregister; cases st)
     (simp_all add: register_unregister register_again register_first
        ble_scan_params_init_cases resets_def)

lemma start_trace:
  "start_BLEscan fl cfg env st =
     (if BLECOUNTER fl then
        (if btStart_ret env then
           ([Esp_log ESP_LOG_INFO ''Initializing bluetooth scanner ...'' [],
             BtStart,
             Esp_coex_preference_set ESP_COEX_PREFER_BT,
             Esp_bluedroid_init,
             Esp_bluedroid_enable]
            @ fst (register_ble_callback fl cfg env False st)
            @ (case snd (register_ble_callback fl cfg env False st) of
                 Returned r \<Rightarrow> [Esp_log ESP_LOG_INFO ''Bluetooth scanner started'' []]
               | Device_reset \<Rightarrow> []
               | Undefined x \<Rightarrow> []),
            case snd (register_ble_callback fl cfg env False st) of
              Returned r \<Rightarrow> Returned (snd r)
            | Device_reset \<Rightarrow> Device_reset
            | Undefined x \<Rightarrow> Undefined x)
         else
           ([Esp_log ESP_LOG_INFO ''Initializing bluetooth scanner ...'' [],
             BtStart,
             Esp_log ESP_LOG_ERROR ''Bluetooth controller start failed. Resetting device'' [],
             Do_reset True], Device_reset))
      else ([], Returned st))"
  by (simp add: start_BLEscan_def run_defs split: outcome.split)

lemma stop_trace:
  "stop_BLEscan fl cfg env st =
     (if BLECOUNTER fl then
        ([Esp_log ESP_LOG_INFO ''Shutting down bluetooth scanner ...'' [],
          Esp_log ESP_LOG_INFO ''Unregister GAP callback...'' [],
          Esp_ble_gap_stop_scanning,
          Esp_ble_gap_register_callback Null_callback,
          Esp_log ESP_LOG_DEBUG ''bluedroid disable...'' [],
          Esp_bluedroid_disable,
          Esp_log ESP_LOG_DEBUG ''bluedroid deinit...'' [],
          Esp_bluedroid_deinit,
          BtStop]
         @ (if btStop_ret env then
              [Esp_coex_preference_set ESP_COEX_PREFER_WIFI,
               Esp_log ESP_LOG_INFO ''Bluetooth scanner stopped'' []]
            else
              [Esp_log ESP_LOG_ERROR ''Bluetooth controller stop failed. Resetting device'' [],
               Do_reset True]),
         if btStop_ret env then Returned st else Device_reset)
      else ([], Returned st))"
  by (simp add: stop_BLEscan_def register_unregister run_defs)

section \<open>The claims\<close>

subsection \<open>C1: an inquiry-complete event restarts the scan\<close>

text \<open>
  C1. For every inquiry-complete sub-event (\<^verbatim>\<open>ESP_GAP_SEARCH_INQ_CMPL_EVT\<close>) delivered to the
  handler while the session is scanning, the handler returns after issuing exactly one
  start-scanning command, the session is scanning afterwards, and no sighting is handed to
  the MAC queue. In a verbose build the handler first reads the payload, which therefore
  has to be readable.
\<close>

theorem inquiry_complete_restarts_scan:
  assumes "session hist = Scanning"
    and "search_evt p = ESP_GAP_SEARCH_INQ_CMPL_EVT"
    and "VERBOSE fl \<longrightarrow> ble_adv p \<noteq> []"
  shows "snd (gap_callback_handler fl cfg env ESP_GAP_BLE_SCAN_RESULT_EVT p) = Returned ()
    \<and> radio_cmds (fst (gap_callback_handler fl cfg env ESP_GAP_BLE_SCAN_RESULT_EVT p))
        = [Esp_ble_gap_start_scanning (BLESCANTIME fl)]
    \<and> sightings (fst (gap_callback_handler fl cfg env ESP_GAP_BLE_SCAN_RESULT_EVT p)) = []
    \<and> session (hist @ fst (gap_callback_handler fl cfg env ESP_GAP_BLE_SCAN_RESULT_EVT p))
        = Scanning"
  using assms
  by (simp add: handler_cases radio_cmds_def sightings_def session_append)

text \<open>
  The theorem at a verbose build, a session that is scanning and an inquiry-complete event.
\<close>

theorem inquiry_complete_restarts_scan_witness:
  "session [Esp_ble_gap_start_scanning 0] = Scanning
   \<and> search_evt inquiry_complete = ESP_GAP_SEARCH_INQ_CMPL_EVT
   \<and> ble_adv inquiry_complete \<noteq> []
   \<and> snd (gap_callback_handler verbose_flags ens_on quiet_env
        ESP_GAP_BLE_SCAN_RESULT_EVT inquiry_complete) = Returned ()
   \<and> radio_cmds (fst (gap_callback_handler verbose_flags ens_on quiet_env
        ESP_GAP_BLE_SCAN_RESULT_EVT inquiry_complete)) = [Esp_ble_gap_start_scanning 0]
   \<and> sightings (fst (gap_callback_handler verbose_flags ens_on quiet_env
        ESP_GAP_BLE_SCAN_RESULT_EVT inquiry_complete)) = []
   \<and> session ([Esp_ble_gap_start_scanning 0] @ fst (gap_callback_handler verbose_flags ens_on
        quiet_env ESP_GAP_BLE_SCAN_RESULT_EVT inquiry_complete)) = Scanning"
proof -
  have h1: "session [Esp_ble_gap_start_scanning 0] = Scanning" by (simp add: session_def)
  have h2: "search_evt inquiry_complete = ESP_GAP_SEARCH_INQ_CMPL_EVT"
    by (simp add: inquiry_complete_def)
  have h3: "VERBOSE verbose_flags \<longrightarrow> ble_adv inquiry_complete \<noteq> []"
    by (simp add: inquiry_complete_def)
  have t: "BLESCANTIME verbose_flags = 0"
    by (simp add: verbose_flags_def paxcounter_flags_def)
  show ?thesis
    using h1 h2 inquiry_complete_restarts_scan [OF h1 h2 h3, of ens_on quiet_env]
    by (simp add: t inquiry_complete_def)
qed

subsection \<open>C2: the signature search\<close>

text \<open>
  C2, as the code has it. For a scan result that passes the address filter, with signature
  counting compiled in and switched on, and a payload buffer that holds a zero byte, exactly
  one sighting is handed over; its kind is \<open>MAC_SNIFF_BLE_ENS\<close> exactly when the three
  signature bytes occur contiguously in the payload in front of its first zero byte, and
  \<open>MAC_SNIFF_BLE\<close> otherwise: the search is the C library's string search.
\<close>

theorem ens_signature_classification:
  assumes "COUNT_ENS fl" and "enscount cfg"
    and "search_evt p = ESP_GAP_SEARCH_INQ_RES_EVT"
    and "\<not> (MACFILTER fl \<and> (ble_addr_type p = BLE_ADDR_TYPE_RANDOM \<or>
                ble_addr_type p = BLE_ADDR_TYPE_RPA_RANDOM))"
    and "0 \<in> set (ble_adv p)"
  shows "snd (gap_callback_handler fl cfg env ESP_GAP_BLE_SCAN_RESULT_EVT p) = Returned ()
    \<and> sightings (fst (gap_callback_handler fl cfg env ESP_GAP_BLE_SCAN_RESULT_EVT p)) =
        [(bda p, rssi p,
          if sublist [0x16, 0x6f, 0xfd] (takeWhile (\<lambda>b. b \<noteq> 0) (ble_adv p))
          then MAC_SNIFF_BLE_ENS else MAC_SNIFF_BLE)]"
proof -
  from assms(5) have readable: "ble_adv p \<noteq> []" by auto
  from assms(4) have pass:
    "(MACFILTER fl \<and> (ble_addr_type p = BLE_ADDR_TYPE_RANDOM \<or>
        ble_addr_type p = BLE_ADDR_TYPE_RPA_RANDOM)) = False" by simp
  show ?thesis
    using assms(1,2,3,5) readable
    by (simp add: handler_cases pass sightings_def)
qed

text \<open>
  The theorem at an exposure-notification advertisement.
\<close>

theorem ens_signature_classification_witness:
  "COUNT_ENS paxcounter_flags \<and> enscount ens_on
   \<and> search_evt ens_advert = ESP_GAP_SEARCH_INQ_RES_EVT
   \<and> 0 \<in> set (ble_adv ens_advert)
   \<and> snd (gap_callback_handler paxcounter_flags ens_on quiet_env
            ESP_GAP_BLE_SCAN_RESULT_EVT ens_advert) = Returned ()
   \<and> sightings (fst (gap_callback_handler paxcounter_flags ens_on quiet_env
            ESP_GAP_BLE_SCAN_RESULT_EVT ens_advert)) =
        [([0x24, 0x6f, 0x28, 0x01, 0x02, 0x03], - 60, MAC_SNIFF_BLE_ENS)]"
proof -
  have h1: "COUNT_ENS paxcounter_flags" by (simp add: paxcounter_flags_def)
  have h2: "enscount ens_on" by (simp add: ens_on_def)
  have h3: "search_evt ens_advert = ESP_GAP_SEARCH_INQ_RES_EVT" by (simp add: ens_advert_def)
  have h4: "\<not> (MACFILTER paxcounter_flags \<and>
      (ble_addr_type ens_advert = BLE_ADDR_TYPE_RANDOM \<or>
       ble_addr_type ens_advert = BLE_ADDR_TYPE_RPA_RANDOM))"
    by (simp add: ens_advert_def)
  have h5: "0 \<in> set (ble_adv ens_advert)" by (simp add: ens_advert_def)
  have found: "sublist [0x16, 0x6f, 0xfd] (takeWhile (\<lambda>b. b \<noteq> 0) (ble_adv ens_advert))"
    by (simp add: ens_advert_def sublist_Cons_right)
  show ?thesis
    using h1 h2 h3 h5 found ens_signature_classification [OF h1 h2 h3 h4 h5, of quiet_env]
    by (simp add: ens_advert_def)
qed

text \<open>
  C2 as stated fails: the signature occurs in this payload, behind a zero byte, and the
  sighting is generic.
\<close>

theorem whole_payload_scan_counterexample:
  "COUNT_ENS paxcounter_flags \<and> enscount ens_on
   \<and> sublist [0x16, 0x6f, 0xfd] (ble_adv zero_first_advert)
   \<and> gap_callback_handler paxcounter_flags ens_on quiet_env
        ESP_GAP_BLE_SCAN_RESULT_EVT zero_first_advert =
      ([Mac_add [0x24, 0x6f, 0x28, 0x01, 0x02, 0x03] (- 60) MAC_SNIFF_BLE], Returned ())"
proof -
  have "sublist [0x16, 0x6f, 0xfd] (ble_adv zero_first_advert)"
    by (simp add: zero_first_advert_def sublist_Cons_right)
  moreover have "\<not> sublist [0x16, 0x6f, 0xfd]
      (takeWhile (\<lambda>b. b \<noteq> 0) (ble_adv zero_first_advert))"
    by (simp add: zero_first_advert_def sublist_Cons_right)
  ultimately show ?thesis
    by (simp add: handler_cases paxcounter_flags_def ens_on_def)
       (simp add: zero_first_advert_def)
qed

subsection \<open>C3: signature counting switched off at run time\<close>

text \<open>
  C3. With signature counting compiled in and \<^verbatim>\<open>cfg.enscount\<close> off, a scan result from a
  public address produces no sighting at all, while the build without signature counting
  hands over a generic sighting for the same event and configuration.
\<close>

theorem runtime_switch_drops_sighting:
  "gap_callback_handler paxcounter_flags ens_off quiet_env
      ESP_GAP_BLE_SCAN_RESULT_EVT ens_advert = ([], Returned ())
   \<and> gap_callback_handler plain_flags ens_off quiet_env
      ESP_GAP_BLE_SCAN_RESULT_EVT ens_advert =
      ([Mac_add [0x24, 0x6f, 0x28, 0x01, 0x02, 0x03] (- 60) MAC_SNIFF_BLE], Returned ())"
  by (simp add: handler_cases paxcounter_flags_def plain_flags_def ens_off_def ens_advert_def)

subsection \<open>C4: the address filter\<close>

text \<open>
  C4. For a scan result whose counting stage emits (signature counting, when compiled in, is
  switched on and the payload is a C string; the payload is readable in a verbose build), no
  sighting is handed over if and only if address filtering is compiled in and the address
  type is random or resolvable-private-random. An event with a public or
  resolvable-private-public address then yields exactly one sighting, whatever the filter
  switch.
\<close>

theorem address_filter_rejects_random_only:
  assumes "search_evt p = ESP_GAP_SEARCH_INQ_RES_EVT"
    and "COUNT_ENS fl \<longrightarrow> enscount cfg \<and> 0 \<in> set (ble_adv p)"
    and "VERBOSE fl \<longrightarrow> ble_adv p \<noteq> []"
  shows "(sightings (fst (gap_callback_handler fl cfg env ESP_GAP_BLE_SCAN_RESULT_EVT p)) = []
           \<longleftrightarrow> MACFILTER fl \<and> (ble_addr_type p = BLE_ADDR_TYPE_RANDOM \<or>
                 ble_addr_type p = BLE_ADDR_TYPE_RPA_RANDOM))
    \<and> snd (gap_callback_handler fl cfg env ESP_GAP_BLE_SCAN_RESULT_EVT p) = Returned ()
    \<and> (ble_addr_type p = BLE_ADDR_TYPE_PUBLIC \<or> ble_addr_type p = BLE_ADDR_TYPE_RPA_PUBLIC
         \<longrightarrow> length (sightings
               (fst (gap_callback_handler fl cfg env ESP_GAP_BLE_SCAN_RESULT_EVT p))) = 1)"
proof (cases "MACFILTER fl \<and> (ble_addr_type p = BLE_ADDR_TYPE_RANDOM \<or>
                 ble_addr_type p = BLE_ADDR_TYPE_RPA_RANDOM)")
  case True
  then show ?thesis
    using assms by (auto simp add: handler_cases sightings_def)
next
  case False
  then have pass:
    "(MACFILTER fl \<and> (ble_addr_type p = BLE_ADDR_TYPE_RANDOM \<or>
        ble_addr_type p = BLE_ADDR_TYPE_RPA_RANDOM)) = False" by simp
  show ?thesis
    using assms by (simp add: handler_cases pass sightings_def)
qed

text \<open>
  The theorem at a filtered build, on a random-address and on a public-address event.
\<close>

theorem address_filter_rejects_random_only_witness:
  "search_evt random_advert = ESP_GAP_SEARCH_INQ_RES_EVT
   \<and> enscount ens_on \<and> 0 \<in> set (ble_adv random_advert)
   \<and> MACFILTER paxcounter_flags \<and> ble_addr_type random_advert = BLE_ADDR_TYPE_RANDOM
   \<and> sightings (fst (gap_callback_handler paxcounter_flags ens_on quiet_env
        ESP_GAP_BLE_SCAN_RESULT_EVT random_advert)) = []
   \<and> ble_addr_type ens_advert = BLE_ADDR_TYPE_PUBLIC
   \<and> length (sightings (fst (gap_callback_handler paxcounter_flags ens_on quiet_env
        ESP_GAP_BLE_SCAN_RESULT_EVT ens_advert))) = 1"
proof -
  have r1: "search_evt random_advert = ESP_GAP_SEARCH_INQ_RES_EVT"
    by (simp add: random_advert_def ens_advert_def)
  have r2: "COUNT_ENS paxcounter_flags \<longrightarrow> enscount ens_on \<and> 0 \<in> set (ble_adv random_advert)"
    by (simp add: random_advert_def ens_advert_def ens_on_def)
  have r3: "VERBOSE paxcounter_flags \<longrightarrow> ble_adv random_advert \<noteq> []"
    by (simp add: paxcounter_flags_def)
  have p1: "search_evt ens_advert = ESP_GAP_SEARCH_INQ_RES_EVT"
    by (simp add: ens_advert_def)
  have p2: "COUNT_ENS paxcounter_flags \<longrightarrow> enscount ens_on \<and> 0 \<in> set (ble_adv ens_advert)"
    by (simp add: ens_advert_def ens_on_def)
  have p3: "VERBOSE paxcounter_flags \<longrightarrow> ble_adv ens_advert \<noteq> []"
    by (simp add: paxcounter_flags_def)
  have facts: "enscount ens_on" "0 \<in> set (ble_adv random_advert)" "MACFILTER paxcounter_flags"
    "ble_addr_type random_advert = BLE_ADDR_TYPE_RANDOM"
    "ble_addr_type ens_advert = BLE_ADDR_TYPE_PUBLIC"
    by (simp_all add: random_advert_def ens_advert_def ens_on_def paxcounter_flags_def)
  show ?thesis
    using r1 facts
      address_filter_rejects_random_only [OF r1 r2 r3, of quiet_env]
      address_filter_rejects_random_only [OF p1 p2 p3, of quiet_env]
    by simp
qed

subsection \<open>C5: a parameter-set-complete event starts the scan\<close>

text \<open>
  C5, as the code has it. In every sequence of delivered events that has run without
  undefined behaviour so far, a parameter-set-complete event contributes exactly one radio
  command, placed after the commands of the earlier events and before those of the later
  ones: start-scanning with the build constant \<open>BLESCANTIME\<close> as its duration.
\<close>

theorem param_set_complete_starts_scan:
  assumes "snd (deliver fl cfg env earlier) = Returned ()"
    and "VERBOSE fl \<longrightarrow> ble_adv p \<noteq> []"
  shows "radio_cmds (fst (deliver fl cfg env
            (earlier @ (ESP_GAP_BLE_SCAN_PARAM_SET_COMPLETE_EVT, p) # later))) =
         radio_cmds (fst (deliver fl cfg env earlier))
           @ Esp_ble_gap_start_scanning (BLESCANTIME fl)
           # radio_cmds (fst (deliver fl cfg env later))"
proof -
  let ?h = "gap_callback_handler fl cfg env ESP_GAP_BLE_SCAN_PARAM_SET_COMPLETE_EVT p"
  from assms(2) have h: "snd ?h = Returned ()"
    "radio_cmds (fst ?h) = [Esp_ble_gap_start_scanning (BLESCANTIME fl)]"
    using handler_param_set_complete [of fl p cfg env] by simp_all
  have "deliver fl cfg env (earlier @ (ESP_GAP_BLE_SCAN_PARAM_SET_COMPLETE_EVT, p) # later) =
      (fst (deliver fl cfg env earlier) @ fst ?h @ fst (deliver fl cfg env later),
       snd (deliver fl cfg env later))"
    by (simp add: deliver_append seq_run_Returned [OF assms(1)] seq_run_Returned [OF h(1)])
  then show ?thesis
    by (simp add: radio_cmds_append h(2))
qed

text \<open>
  The theorem on a scan result, a parameter-set-complete event and an inquiry-complete event.
\<close>

theorem param_set_complete_starts_scan_witness:
  "snd (deliver verbose_flags ens_on quiet_env
          [(ESP_GAP_BLE_SCAN_RESULT_EVT, ens_advert)]) = Returned ()
   \<and> ble_adv inquiry_complete \<noteq> []
   \<and> radio_cmds (fst (deliver verbose_flags ens_on quiet_env
        ([(ESP_GAP_BLE_SCAN_RESULT_EVT, ens_advert)]
          @ (ESP_GAP_BLE_SCAN_PARAM_SET_COMPLETE_EVT, inquiry_complete)
          # [(ESP_GAP_BLE_SCAN_RESULT_EVT, inquiry_complete)]))) =
      [Esp_ble_gap_start_scanning 0, Esp_ble_gap_start_scanning 0]"
proof -
  have found: "sublist [0x16, 0x6f, 0xfd] (takeWhile (\<lambda>b. b \<noteq> 0) (ble_adv ens_advert))"
    by (simp add: ens_advert_def sublist_Cons_right)
  have e: "deliver verbose_flags ens_on quiet_env [(ESP_GAP_BLE_SCAN_RESULT_EVT, ens_advert)] =
      gap_callback_handler verbose_flags ens_on quiet_env ESP_GAP_BLE_SCAN_RESULT_EVT ens_advert"
    by (simp add: seq_run_unit)
  have h1: "snd (deliver verbose_flags ens_on quiet_env
      [(ESP_GAP_BLE_SCAN_RESULT_EVT, ens_advert)]) = Returned ()"
    unfolding e using found
    by (simp add: handler_cases verbose_flags_def paxcounter_flags_def ens_on_def)
       (simp add: ens_advert_def)
  have r1: "radio_cmds (fst (deliver verbose_flags ens_on quiet_env
      [(ESP_GAP_BLE_SCAN_RESULT_EVT, ens_advert)])) = []"
    unfolding e using found
    by (simp add: handler_cases verbose_flags_def paxcounter_flags_def ens_on_def radio_cmds_def)
       (simp add: ens_advert_def)
  have e2: "deliver verbose_flags ens_on quiet_env
      [(ESP_GAP_BLE_SCAN_RESULT_EVT, inquiry_complete)] =
      gap_callback_handler verbose_flags ens_on quiet_env ESP_GAP_BLE_SCAN_RESULT_EVT
        inquiry_complete"
    by (simp add: seq_run_unit)
  have r2: "radio_cmds (fst (deliver verbose_flags ens_on quiet_env
      [(ESP_GAP_BLE_SCAN_RESULT_EVT, inquiry_complete)])) = [Esp_ble_gap_start_scanning 0]"
    unfolding e2
    by (simp add: handler_cases verbose_flags_def paxcounter_flags_def radio_cmds_def
        inquiry_complete_def)
  have h2: "VERBOSE verbose_flags \<longrightarrow> ble_adv inquiry_complete \<noteq> []"
    by (simp add: inquiry_complete_def)
  have t: "BLESCANTIME verbose_flags = 0"
    by (simp add: verbose_flags_def paxcounter_flags_def)
  have b: "ble_adv inquiry_complete \<noteq> []"
    by (simp add: inquiry_complete_def)
  have c: "radio_cmds (fst (deliver verbose_flags ens_on quiet_env
        ([(ESP_GAP_BLE_SCAN_RESULT_EVT, ens_advert)]
          @ (ESP_GAP_BLE_SCAN_PARAM_SET_COMPLETE_EVT, inquiry_complete)
          # [(ESP_GAP_BLE_SCAN_RESULT_EVT, inquiry_complete)]))) =
      [Esp_ble_gap_start_scanning 0, Esp_ble_gap_start_scanning 0]"
    by (simp only: param_set_complete_starts_scan [OF h1 h2] r1 r2 t append_Nil)
  from h1 b c show ?thesis by blast
qed

text \<open>
  C5 as stated fails: with a scan window of 80 ms (128 ticks) the duration passed to
  start-scanning is 0.
\<close>

theorem scan_duration_is_not_the_window_counterexample:
  "gap_callback_handler paxcounter_flags ens_on quiet_env
      ESP_GAP_BLE_SCAN_PARAM_SET_COMPLETE_EVT no_payload =
     ([Esp_ble_gap_start_scanning 0], Returned ())
   \<and> BLESCANWINDOW paxcounter_flags = 80
   \<and> ble_scan_params_init paxcounter_flags ens_on =
       ([], Returned \<lparr>scan_type = BLE_SCAN_TYPE_PASSIVE,
                       own_addr_type = BLE_ADDR_TYPE_RANDOM,
                       scan_filter_policy = BLE_SCAN_FILTER_ALLOW_ALL,
                       scan_interval = 128, scan_window = 128,
                       scan_duplicate = BLE_SCAN_DUPLICATE_ENABLE\<rparr>)
   \<and> Esp_ble_gap_start_scanning 0 \<noteq> Esp_ble_gap_start_scanning 80
   \<and> Esp_ble_gap_start_scanning 0 \<noteq> Esp_ble_gap_start_scanning 128"
  by (simp add: handler_cases ble_scan_params_init_cases paxcounter_flags_def ens_on_def)

subsection \<open>C6: the fatal restart\<close>

text \<open>
  C6. \<^verbatim>\<open>start_BLEscan\<close> either returns or ends in \<^verbatim>\<open>do_reset(true)\<close>, the latter exactly
  when BLE counting is compiled in and \<^verbatim>\<open>btStart()\<close> fails; \<^verbatim>\<open>stop_BLEscan\<close> likewise with
  \<^verbatim>\<open>btStop()\<close>. Neither the event handler nor \<^verbatim>\<open>register_ble_callback\<close> ever calls
  \<^verbatim>\<open>do_reset\<close>.
\<close>

theorem fatal_restart_only_on_controller_failure:
  "resets (fst (start_BLEscan fl cfg env st)) =
     (if BLECOUNTER fl \<and> \<not> btStart_ret env then [Do_reset True] else [])
   \<and> (snd (start_BLEscan fl cfg env st) = Device_reset
        \<longleftrightarrow> BLECOUNTER fl \<and> \<not> btStart_ret env)
   \<and> resets (fst (stop_BLEscan fl cfg env st)) =
     (if BLECOUNTER fl \<and> \<not> btStop_ret env then [Do_reset True] else [])
   \<and> snd (stop_BLEscan fl cfg env st) =
     (if BLECOUNTER fl \<and> \<not> btStop_ret env then Device_reset else Returned st)
   \<and> resets (fst (gap_callback_handler fl cfg env event p)) = []
   \<and> snd (gap_callback_handler fl cfg env event p) \<noteq> Device_reset
   \<and> resets (fst (register_ble_callback fl cfg env unregister st)) = []
   \<and> snd (register_ble_callback fl cfg env unregister st) \<noteq> Device_reset
   \<and> (st \<noteq> None \<or> (blescantime cfg < 4096 \<and> BLESCANWINDOW fl < 40960) \<longrightarrow>
        (\<exists>st'. snd (start_BLEscan fl cfg env st) =
           (if BLECOUNTER fl \<and> \<not> btStart_ret env then Device_reset else Returned st')))"
proof -
  have reg: "resets (fst (register_ble_callback fl cfg env False st)) = []"
    "snd (register_ble_callback fl cfg env False st) \<noteq> Device_reset"
    using register_never_resets [of fl cfg env False st] by simp_all
  have a: "resets (fst (start_BLEscan fl cfg env st)) =
     (if BLECOUNTER fl \<and> \<not> btStart_ret env then [Do_reset True] else [])"
    using reg by (simp add: start_trace resets_def split: outcome.split)
  have b: "snd (start_BLEscan fl cfg env st) = Device_reset
        \<longleftrightarrow> BLECOUNTER fl \<and> \<not> btStart_ret env"
    using reg by (simp add: start_trace split: outcome.split)
  have c: "resets (fst (stop_BLEscan fl cfg env st)) =
     (if BLECOUNTER fl \<and> \<not> btStop_ret env then [Do_reset True] else [])"
    by (simp add: stop_trace resets_def)
  have d: "snd (stop_BLEscan fl cfg env st) =
     (if BLECOUNTER fl \<and> \<not> btStop_ret env then Device_reset else Returned st)"
    by (simp add: stop_trace)
  have e: "st \<noteq> None \<or> (blescantime cfg < 4096 \<and> BLESCANWINDOW fl < 40960) \<longrightarrow>
        (\<exists>st'. snd (start_BLEscan fl cfg env st) =
           (if BLECOUNTER fl \<and> \<not> btStart_ret env then Device_reset else Returned st'))"
    by (cases st)
       (auto simp add: start_trace register_again register_first ble_scan_params_init_cases)
  from a b c d e handler_never_resets [of fl cfg env event p]
    register_never_resets [of fl cfg env unregister st]
  show ?thesis by blast
qed

text \<open>
  The theorem with a controller that fails to start and with one that starts.
\<close>

theorem fatal_restart_only_on_controller_failure_witness:
  "BLECOUNTER paxcounter_flags \<and> \<not> btStart_ret failing_env \<and> btStart_ret quiet_env
   \<and> blescantime ens_on < 4096 \<and> BLESCANWINDOW paxcounter_flags < 40960
   \<and> snd (start_BLEscan paxcounter_flags ens_on failing_env None) = Device_reset
   \<and> resets (fst (start_BLEscan paxcounter_flags ens_on failing_env None)) = [Do_reset True]
   \<and> (\<exists>st'. snd (start_BLEscan paxcounter_flags ens_on quiet_env None) = Returned st')
   \<and> resets (fst (start_BLEscan paxcounter_flags ens_on quiet_env None)) = []"
proof -
  have f: "BLECOUNTER paxcounter_flags" "\<not> btStart_ret failing_env" "btStart_ret quiet_env"
    "blescantime ens_on < 4096" "BLESCANWINDOW paxcounter_flags < 40960"
    by (simp_all add: paxcounter_flags_def failing_env_def quiet_env_def ens_on_def)
  show ?thesis
    using f
      fatal_restart_only_on_controller_failure
        [of paxcounter_flags ens_on failing_env None
            ESP_GAP_BLE_SCAN_RESULT_EVT ens_advert False]
      fatal_restart_only_on_controller_failure
        [of paxcounter_flags ens_on quiet_env None
            ESP_GAP_BLE_SCAN_RESULT_EVT ens_advert False]
    by simp
qed

subsection \<open>C7: the scan parameters in radio ticks\<close>

text \<open>
  C7, as the code has it. For a scan-cycle value below 4096 and a window macro below 40960
  the first registration submits parameters whose interval is exactly the configured
  \<^verbatim>\<open>cfg.blescantime * 10\<close> milliseconds in ticks of 0.625 ms, and whose window is
  \<open>BLESCANWINDOW\<close> in such ticks rounded down; both fit into 16 bits. The window is at most
  the interval exactly when the rounded window ticks do not exceed sixteen times the
  scan-cycle value, which holds whenever \<open>BLESCANWINDOW\<close> is at most
  \<^verbatim>\<open>cfg.blescantime * 10\<close>.
\<close>

theorem scan_parameters_in_ticks:
  assumes "blescantime cfg < 4096" and "BLESCANWINDOW fl < 40960"
  shows "\<exists>ps. ble_scan_params_init fl cfg = ([], Returned ps)
    \<and> radio_cmds (fst (register_ble_callback fl cfg env False None)) =
        [Esp_ble_gap_register_callback Gap_callback_handler, Esp_ble_gap_set_scan_params ps]
    \<and> scan_duplicate ps = BLE_SCAN_DUPLICATE_ENABLE
    \<and> 5 * unat (scan_interval ps) = 8 * (blescantime cfg * 10)
    \<and> unat (scan_window ps) = (BLESCANWINDOW fl * 8) div 5
    \<and> (scan_window ps \<le> scan_interval ps
         \<longleftrightarrow> (BLESCANWINDOW fl * 8) div 5 \<le> 16 * blescantime cfg)
    \<and> (BLESCANWINDOW fl \<le> blescantime cfg * 10 \<longrightarrow> scan_window ps \<le> scan_interval ps)"
proof -
  let ?ps = "\<lparr>scan_type = BLE_SCAN_TYPE_PASSIVE,
              own_addr_type = BLE_ADDR_TYPE_RANDOM,
              scan_filter_policy = BLE_SCAN_FILTER_ALLOW_ALL,
              scan_interval = word_of_nat (16 * blescantime cfg),
              scan_window = word_of_nat ((BLESCANWINDOW fl * 8) div 5),
              scan_duplicate = BLE_SCAN_DUPLICATE_ENABLE\<rparr>"
  have init: "ble_scan_params_init fl cfg = ([], Returned ?ps)"
    using assms by (simp add: ble_scan_params_init_cases)
  have "16 * blescantime cfg < 65536" using assms(1) by simp
  then have "unat (word_of_nat (16 * blescantime cfg) :: 16 word) = 16 * blescantime cfg"
    by (rule unat_word16_of_nat)
  then have i: "unat (scan_interval ?ps) = 16 * blescantime cfg"
    by simp
  have "(BLESCANWINDOW fl * 8) div 5 < 65536" using assms(2) by arith
  then have "unat (word_of_nat ((BLESCANWINDOW fl * 8) div 5) :: 16 word) =
      (BLESCANWINDOW fl * 8) div 5"
    by (rule unat_word16_of_nat)
  then have w: "unat (scan_window ?ps) = (BLESCANWINDOW fl * 8) div 5"
    by simp
  have cmds: "radio_cmds (fst (register_ble_callback fl cfg env False None)) =
      [Esp_ble_gap_register_callback Gap_callback_handler, Esp_ble_gap_set_scan_params ?ps]"
    by (simp add: register_first init radio_cmds_def)
  have le: "scan_window ?ps \<le> scan_interval ?ps
      \<longleftrightarrow> (BLESCANWINDOW fl * 8) div 5 \<le> 16 * blescantime cfg"
    unfolding word_le_nat_alt i w ..
  have suff: "BLESCANWINDOW fl \<le> blescantime cfg * 10 \<longrightarrow>
      (BLESCANWINDOW fl * 8) div 5 \<le> 16 * blescantime cfg"
    by arith
  have dup: "scan_duplicate ?ps = BLE_SCAN_DUPLICATE_ENABLE" by simp
  have exact: "5 * unat (scan_interval ?ps) = 8 * (blescantime cfg * 10)"
    unfolding i by simp
  from suff le have suff': "BLESCANWINDOW fl \<le> blescantime cfg * 10 \<longrightarrow>
      scan_window ?ps \<le> scan_interval ?ps" by blast
  from init cmds dup exact w le suff' show ?thesis by blast
qed

text \<open>
  The theorem at a window of 80 ms and a scan cycle of 8.
\<close>

theorem scan_parameters_in_ticks_witness:
  "blescantime ens_on < 4096 \<and> BLESCANWINDOW paxcounter_flags < 40960
   \<and> BLESCANWINDOW paxcounter_flags \<le> blescantime ens_on * 10
   \<and> (\<exists>ps. ble_scan_params_init paxcounter_flags ens_on = ([], Returned ps)
        \<and> unat (scan_window ps) = 128
        \<and> scan_window ps \<le> scan_interval ps)"
proof -
  have h1: "blescantime ens_on < 4096" by (simp add: ens_on_def)
  have h2: "BLESCANWINDOW paxcounter_flags < 40960" by (simp add: paxcounter_flags_def)
  have h3: "BLESCANWINDOW paxcounter_flags \<le> blescantime ens_on * 10"
    by (simp add: ens_on_def paxcounter_flags_def)
  have w: "BLESCANWINDOW paxcounter_flags * 8 div 5 = 128"
    by (simp add: paxcounter_flags_def)
  from scan_parameters_in_ticks [OF h1 h2, of quiet_env] h3 w
  obtain ps where "ble_scan_params_init paxcounter_flags ens_on = ([], Returned ps)"
    "unat (scan_window ps) = 128" "scan_window ps \<le> scan_interval ps"
    by auto
  with h1 h2 h3 show ?thesis by blast
qed

text \<open>
  C7 as stated fails: with a scan cycle of 1 the interval is 16 ticks and the window 128
  ticks; and a window of 3 ms becomes 4 ticks, which is 2.5 ms.
\<close>

theorem window_exceeds_interval_counterexample:
  "radio_cmds (fst (register_ble_callback paxcounter_flags short_cycle quiet_env False None)) =
     [Esp_ble_gap_register_callback Gap_callback_handler,
      Esp_ble_gap_set_scan_params
        \<lparr>scan_type = BLE_SCAN_TYPE_PASSIVE,
         own_addr_type = BLE_ADDR_TYPE_RANDOM,
         scan_filter_policy = BLE_SCAN_FILTER_ALLOW_ALL,
         scan_interval = 16, scan_window = 128,
         scan_duplicate = BLE_SCAN_DUPLICATE_ENABLE\<rparr>]
   \<and> \<not> ((128 :: 16 word) \<le> 16)
   \<and> snd (ble_scan_params_init (paxcounter_flags\<lparr>BLESCANWINDOW := 3\<rparr>) short_cycle) =
       Returned \<lparr>scan_type = BLE_SCAN_TYPE_PASSIVE,
                 own_addr_type = BLE_ADDR_TYPE_RANDOM,
                 scan_filter_policy = BLE_SCAN_FILTER_ALLOW_ALL,
                 scan_interval = 16, scan_window = 4,
                 scan_duplicate = BLE_SCAN_DUPLICATE_ENABLE\<rparr>
   \<and> (4 :: real) * 0.625 \<noteq> 3"
  by (simp add: register_first ble_scan_params_init_cases radio_cmds_def
      paxcounter_flags_def short_cycle_def)

subsection \<open>C8: stopping\<close>

text \<open>
  C8, as the code has it. \<^verbatim>\<open>stop_BLEscan\<close> does not look at the session. With BLE counting
  compiled in, every call sends stop-scanning and the removal of the handler to the radio
  stack, disables and releases the host stack and stops the controller, whatever happened
  before; it leaves the file's own state as it was, returns exactly when \<^verbatim>\<open>btStop()\<close>
  succeeds and calls \<^verbatim>\<open>do_reset(true)\<close> otherwise. Only a build without BLE counting makes
  it do nothing.
\<close>

theorem stop_runs_in_every_session_state:
  "radio_cmds (fst (stop_BLEscan fl cfg env st)) =
     (if BLECOUNTER fl
      then [Esp_ble_gap_stop_scanning, Esp_ble_gap_register_callback Null_callback] else [])
   \<and> filter (\<lambda>e. e = Esp_bluedroid_disable \<or> e = Esp_bluedroid_deinit \<or> e = BtStop)
        (fst (stop_BLEscan fl cfg env st)) =
     (if BLECOUNTER fl then [Esp_bluedroid_disable, Esp_bluedroid_deinit, BtStop] else [])
   \<and> snd (stop_BLEscan fl cfg env st) =
     (if BLECOUNTER fl \<and> \<not> btStop_ret env then Device_reset else Returned st)
   \<and> resets (fst (stop_BLEscan fl cfg env st)) =
     (if BLECOUNTER fl \<and> \<not> btStop_ret env then [Do_reset True] else [])
   \<and> session (hist @ fst (stop_BLEscan fl cfg env st)) =
     (if BLECOUNTER fl then Idle else session hist)"
  by (simp add: stop_trace radio_cmds_def resets_def session_append)

text \<open>
  C8 as stated fails: on a session that was never started the call issues radio commands,
  and it restarts the device when the controller reports that it did not stop.
\<close>

theorem stop_on_idle_counterexample:
  "session [] = Idle
   \<and> radio_cmds (fst (stop_BLEscan paxcounter_flags ens_on quiet_env None)) =
       [Esp_ble_gap_stop_scanning, Esp_ble_gap_register_callback Null_callback]
   \<and> snd (stop_BLEscan paxcounter_flags ens_on failing_env None) = Device_reset
   \<and> resets (fst (stop_BLEscan paxcounter_flags ens_on failing_env None)) = [Do_reset True]"
  by (simp add: stop_trace radio_cmds_def resets_def session_def paxcounter_flags_def
      failing_env_def quiet_env_def)

subsection \<open>C9: the status of registration\<close>

text \<open>
  C9. \<^verbatim>\<open>register_ble_callback\<close> returns \<open>ESP_OK\<close> whatever status codes the GAP primitives
  hand back: always in unregister mode, in register mode whenever the scan parameters exist
  already or can be represented, and it never returns anything else.
\<close>

theorem register_ble_callback_returns_ESP_OK:
  "snd (register_ble_callback fl cfg env True st) = Returned (ESP_OK, st)
   \<and> (st \<noteq> None \<or> (blescantime cfg < 4096 \<and> BLESCANWINDOW fl < 40960) \<longrightarrow>
        (\<exists>st'. snd (register_ble_callback fl cfg env False st) = Returned (ESP_OK, st')))
   \<and> (\<forall>r st'. snd (register_ble_callback fl cfg env unregister st) = Returned (r, st')
        \<longrightarrow> r = ESP_OK)"
proof (intro conjI allI impI)
  show "snd (register_ble_callback fl cfg env True st) = Returned (ESP_OK, st)"
    by (simp add: register_unregister)
next
  assume "st \<noteq> None \<or> (blescantime cfg < 4096 \<and> BLESCANWINDOW fl < 40960)"
  then show "\<exists>st'. snd (register_ble_callback fl cfg env False st) = Returned (ESP_OK, st')"
    by (cases st) (auto simp add: register_again register_first ble_scan_params_init_cases)
next
  fix r st'
  assume "snd (register_ble_callback fl cfg env unregister st) = Returned (r, st')"
  then show "r = ESP_OK"
    by (cases unregister; cases st)
       (auto simp add: register_unregister register_again register_first
          ble_scan_params_init_cases split: if_splits)
qed

text \<open>
  The theorem in an environment where every GAP primitive reports a failure.
\<close>

theorem register_ble_callback_returns_ESP_OK_witness:
  "gap_set_scan_params_ret failing_env \<noteq> ESP_OK
   \<and> gap_stop_scanning_ret failing_env \<noteq> ESP_OK
   \<and> gap_register_callback_ret failing_env \<noteq> ESP_OK
   \<and> blescantime ens_on < 4096 \<and> BLESCANWINDOW paxcounter_flags < 40960
   \<and> snd (register_ble_callback paxcounter_flags ens_on failing_env True None) =
       Returned (ESP_OK, None)
   \<and> (\<exists>st'. snd (register_ble_callback paxcounter_flags ens_on failing_env False None) =
       Returned (ESP_OK, st'))"
proof -
  have env: "gap_set_scan_params_ret failing_env \<noteq> ESP_OK"
    "gap_stop_scanning_ret failing_env \<noteq> ESP_OK"
    "gap_register_callback_ret failing_env \<noteq> ESP_OK"
    by (simp_all add: failing_env_def ESP_OK_def)
  have range: "blescantime ens_on < 4096 \<and> BLESCANWINDOW paxcounter_flags < 40960"
    by (simp add: ens_on_def paxcounter_flags_def)
  show ?thesis
    using env range
      register_ble_callback_returns_ESP_OK
        [of paxcounter_flags ens_on failing_env None False]
    by simp
qed

subsection \<open>C10: the verbose build reads the payload of every event\<close>

text \<open>
  C10. In a verbose build the handler reads the first payload byte ahead of the dispatch on
  the event kind: for every event, a parameter record without a readable payload makes the
  call undefined before any command is issued, and with a readable payload the first effect
  is the log line that shows that byte.
\<close>

theorem verbose_build_reads_payload_of_every_event:
  assumes "VERBOSE fl"
  shows "(ble_adv p = [] \<longrightarrow>
            gap_callback_handler fl cfg env event p = ([], Undefined Unreadable_payload))
    \<and> (ble_adv p \<noteq> [] \<longrightarrow>
         (\<exists>rest. fst (gap_callback_handler fl cfg env event p) =
            Esp_log ESP_LOG_VERBOSE ''BT payload rcvd -> type: 0x%.2x -> %s''
              [Arg_int (uint (hd (ble_adv p))),
               Arg_str (btsig_gap_type (unat (hd (ble_adv p))))] # rest))"
  using assms
  by (simp add: gap_callback_handler_def log_payload_type_cases seq_run_def bind_run_def)

text \<open>
  The theorem at a parameter-set-complete event without a payload; the build without
  verbose logging starts the scan on the same event.
\<close>

theorem verbose_build_reads_payload_of_every_event_witness:
  "VERBOSE verbose_flags \<and> ble_adv no_payload = []
   \<and> gap_callback_handler verbose_flags ens_on quiet_env
        ESP_GAP_BLE_SCAN_PARAM_SET_COMPLETE_EVT no_payload =
       ([], Undefined Unreadable_payload)
   \<and> gap_callback_handler paxcounter_flags ens_on quiet_env
        ESP_GAP_BLE_SCAN_PARAM_SET_COMPLETE_EVT no_payload =
       ([Esp_ble_gap_start_scanning 0], Returned ())"
proof -
  have v: "VERBOSE verbose_flags" by (simp add: verbose_flags_def)
  have e: "ble_adv no_payload = []" by (simp add: no_payload_def)
  have q: "gap_callback_handler paxcounter_flags ens_on quiet_env
        ESP_GAP_BLE_SCAN_PARAM_SET_COMPLETE_EVT no_payload =
       ([Esp_ble_gap_start_scanning 0], Returned ())"
    by (simp add: handler_cases paxcounter_flags_def)
  show ?thesis
    using v e q
      verbose_build_reads_payload_of_every_event
        [OF v, of no_payload ens_on quiet_env ESP_GAP_BLE_SCAN_PARAM_SET_COMPLETE_EVT]
    by simp
qed

end
